theory Spec2Isabelle
  imports Main "HOL-Library.Word"
begin

section \<open>Strings and bytes\<close>

text \<open>
  A Python \<open>str\<close> is a sequence of Unicode code points, so it is modelled as the list
  of its code points. \<open>ustr\<close> reads an ASCII literal; a character outside ASCII is
  written as its code point (\<open>0x2022\<close> is the bullet, \<open>0x25C6\<close> the black diamond).
  Python \<open>bytes\<close> is a list of octets.
\<close>

type_synonym pystr = "nat list"

type_synonym bytes = "8 word list"

definition ustr :: "string \<Rightarrow> pystr" where
  "ustr s = map of_char s"

text \<open>
  \<open>str.replace(old, new)\<close>: every non-overlapping occurrence of \<open>old\<close>, scanning from
  the left, is replaced by \<open>new\<close>; an empty \<open>old\<close> matches before every character and
  at the end.
\<close>

function str_replace :: "pystr \<Rightarrow> pystr \<Rightarrow> pystr \<Rightarrow> pystr" where
  "str_replace [] old new = (if old = [] then new else [])"
| "str_replace (c # s) old new =
     (if old = [] then new @ c # str_replace s old new
      else if take (length old) (c # s) = old
        then new @ str_replace (drop (length old) (c # s)) old new
      else c # str_replace s old new)"
  by pat_completeness auto
termination
  by (relation "measure (\<lambda>(s, old, new). length s)") (auto simp: Suc_diff_le)

section \<open>The display transform of \<open>main\<close>\<close>

text \<open>
  Line 122 of \<open>app.py\<close>:
  \<^verbatim>\<open>response.replace('\n', '<br>').replace(BULLET, DIAMOND)\<close>
  where \<open>BULLET\<close> is the one-character string U+2022 and \<open>DIAMOND\<close> the one-character
  string U+25C6.
\<close>

definition format_response :: "pystr \<Rightarrow> pystr" where
  "format_response response =
     str_replace (str_replace response (ustr ''\<newline>'') (ustr ''<br>'')) [0x2022] [0x25C6]"

text \<open>The same two replacements, applied in the opposite order.\<close>

definition format_response_swapped :: "pystr \<Rightarrow> pystr" where
  "format_response_swapped response =
     str_replace (str_replace response [0x2022] [0x25C6]) (ustr ''\<newline>'') (ustr ''<br>'')"

text \<open>
  The transform as the specification words it: each character is looked at on its own;
  a newline becomes \<open><br>\<close>, a bullet becomes the diamond, anything else stays.
\<close>

definition display_char :: "nat \<Rightarrow> pystr" where
  "display_char c =
     (if c = 10 then ustr ''<br>'' else if c = 0x2022 then [0x25C6] else [c])"

definition display_text :: "pystr \<Rightarrow> pystr" where
  "display_text response = concat (map display_char response)"

section \<open>Data model\<close>

text \<open>
  The object \<open>st.file_uploader\<close> hands back: the script reads its declared media type
  (\<open>uploaded_file.type\<close>) and its raw bytes (\<open>uploaded_file.getvalue()\<close>).
\<close>

record UploadedFile =
  name :: pystr
  type :: pystr
  getvalue :: bytes

text \<open>The dictionary \<open>{"mime_type": ..., "data": ...}\<close> built by \<open>prepare_image\<close>.\<close>

record image_part =
  mime_type :: pystr
  data :: bytes

text \<open>
  A raised exception, with its \<open>str(e)\<close>. \<open>Exception\<close> stands for every instance of
  Python's \<open>Exception\<close> class (what \<open>except Exception\<close> catches); \<open>BaseException\<close> for the
  others (\<open>KeyboardInterrupt\<close>, \<open>SystemExit\<close>, the framework's script-control exceptions),
  which that handler lets through.
\<close>

datatype py_exc = Exception pystr | BaseException pystr

text \<open>
  The external collaborators are parameters of the model. \<open>generate_content\<close> is
  \<open>genai.GenerativeModel(name).generate_content([part, prompt])\<close>; it returns a response
  whose \<open>text\<close> property is read afterwards (and may itself raise), or raises.
  \<open>image_open\<close> is PIL's \<open>Image.open\<close>, which raises on a file it cannot identify.
\<close>

datatype response = Response (response_text: "py_exc + pystr")

type_synonym request = "pystr \<times> image_part \<times> pystr"

record 'img env =
  image_open :: "UploadedFile \<Rightarrow> py_exc + 'img"
  generate_content :: "pystr \<Rightarrow> image_part \<times> pystr \<Rightarrow> py_exc + response"

text \<open>
  What the framework's widgets return in one run of the script: the current upload
  (\<open>None\<close> when no file is selected) and whether the button was just clicked.
\<close>

record widgets =
  uploaded_file :: "UploadedFile option"
  analyze_button :: bool

text \<open>The page is the sequence of framework calls that draw something, each in its container.\<close>

datatype container = Page | Col1 | Col2

datatype 'img element =
    PageConfig pystr pystr pystr pystr
  | Markdown pystr bool
  | Columns "nat list" pystr
  | FileUploader pystr "pystr list" pystr
  | Image 'img pystr bool
  | Button pystr pystr pystr bool
  | Spinner pystr
  | Success pystr

text \<open>
  One run of the script: what was drawn, the calls made to the external service (model
  name, media attachment, instruction text), and the exception that ended the run, if any.
\<close>

record 'img run =
  page :: "(container \<times> 'img element) list"
  calls :: "request list"
  raised :: "py_exc option"

section \<open>The texts of the page\<close>

definition header_html :: pystr where
  "header_html = concat
    [ustr ''\<newline>'',
     ustr ''        <div style='background-color: #161922; padding: 2rem 0; margin: -6rem -4rem 2rem -4rem;'>\<newline>'',
     ustr ''            <div style='text-align: center; max-width: 1200px; margin: 0 auto;'>\<newline>'',
     ustr ''                <h1 style='color: #fafafa; margin-bottom: 1rem; margin-top: 1rem;'>'' @ [0x1F37D, 0xFE0F] @ ustr '' Calorie Advisor AI</h1>\<newline>'',
     ustr ''                <p style='color: #a8e6cf; font-size: 1.2rem;'>Get instant calorie information and health advice for your meals!</p>\<newline>'',
     ustr ''            </div>\<newline>'',
     ustr ''        </div>\<newline>'',
     ustr ''    '']"

definition footer_html :: pystr where
  "footer_html = concat
    [ustr ''\<newline>'',
     ustr ''        <div style='text-align: center; padding: 2rem; margin-top: 3rem;'>\<newline>'',
     ustr ''            <p>Powered by AI '' @ [0x2022] @ ustr '' Made with '' @ [0x2764, 0xFE0F] @ ustr '' for healthy eating</p>\<newline>'',
     ustr ''        </div>\<newline>'',
     ustr ''    '']"

definition placeholder_html :: pystr where
  "placeholder_html = concat
    [ustr ''\<newline>'',
     ustr ''                <div style='text-align: center; padding: 2rem;'>\<newline>'',
     ustr ''                    <h3>Ready to analyze your meal?</h3>\<newline>'',
     ustr ''                    <p>Upload a photo to get started!</p>\<newline>'',
     ustr ''                </div>\<newline>'',
     ustr ''            '']"

definition prompt :: pystr where
  "prompt = concat
    [ustr ''\<newline>'',
     ustr ''                    Please analyze this food image and provide:\<newline>'',
     ustr ''                    1. List each food item and its calories\<newline>'',
     ustr ''                    2. Total calories\<newline>'',
     ustr ''                    3. Simple health advice\<newline>'',
     ustr ''\<newline>'',
     ustr ''                    Format like this:\<newline>'',
     ustr ''                    '' @ [0x1F37D, 0xFE0F] @ ustr '' FOOD ITEMS:\<newline>'',
     ustr ''                    '' @ [0x2022] @ ustr '' [Food Item] - [Calories]\<newline>'',
     ustr ''                    '' @ [0x2022] @ ustr '' [Food Item] - [Calories]\<newline>'',
     ustr ''\<newline>'',
     ustr ''                    '' @ [0x1F4CA] @ ustr '' TOTAL CALORIES: [Number]\<newline>'',
     ustr ''\<newline>'',
     ustr ''                    '' @ [0x1F4A1] @ ustr '' HEALTH TIPS:\<newline>'',
     ustr ''                    '' @ [0x2022] @ ustr '' [Tip 1]\<newline>'',
     ustr ''                    '' @ [0x2022] @ ustr '' [Tip 2]\<newline>'',
     ustr ''                    '']"

definition result_pre :: pystr where
  "result_pre = concat
    [ustr ''\<newline>'',
     ustr ''                            <div style='padding: 1.5rem; border-radius: 8px; margin-top: 1rem;'>\<newline>'',
     ustr ''                            '']"

definition result_post :: pystr where
  "result_post = concat
    [ustr ''\<newline>'',
     ustr ''                            </div>\<newline>'',
     ustr ''                        '']"

section \<open>The functions of \<open>app.py\<close>\<close>

text \<open>
  \<open>get_gemini_response\<close>: everything inside \<open>try\<close> that raises an \<open>Exception\<close> ends in
  the handler, which returns \<open>f"Error: {str(e)}"\<close>; this includes \<open>image[0]\<close> on an empty
  list and the read of \<open>response.text\<close>. The second component logs the call made.
\<close>

definition except_Exception :: "py_exc \<Rightarrow> py_exc + pystr" where
  "except_Exception e =
     (case e of Exception m \<Rightarrow> Inr (ustr ''Error: '' @ m) | BaseException m \<Rightarrow> Inl e)"

definition get_gemini_response ::
  "(pystr \<Rightarrow> image_part \<times> pystr \<Rightarrow> py_exc + response) \<Rightarrow> image_part list \<Rightarrow> pystr
     \<Rightarrow> (py_exc + pystr) \<times> request list" where
  "get_gemini_response gen img prompt' =
     (case img of
        [] \<Rightarrow> (except_Exception (Exception (ustr ''list index out of range'')), [])
      | part # _ \<Rightarrow>
          (case gen (ustr ''gemini-1.5-pro'') (part, prompt') of
             Inl e \<Rightarrow> (except_Exception e, [(ustr ''gemini-1.5-pro'', part, prompt')])
           | Inr response \<Rightarrow>
               (case response_text response of
                  Inl e \<Rightarrow> (except_Exception e, [(ustr ''gemini-1.5-pro'', part, prompt')])
                | Inr t \<Rightarrow> (Inr t, [(ustr ''gemini-1.5-pro'', part, prompt')]))))"

definition prepare_image :: "UploadedFile option \<Rightarrow> image_part list option" where
  "prepare_image uploaded =
     (case uploaded of
        Some f \<Rightarrow> Some [\<lparr>mime_type = type f, data = getvalue f\<rparr>]
      | None \<Rightarrow> None)"

text \<open>The part of the page drawn before the right column looks at the upload.\<close>

definition upload_section :: "(container \<times> 'img element) list" where
  "upload_section =
     [(Page, PageConfig (ustr ''Calorie Advisor'') [0x1F37D, 0xFE0F] (ustr ''wide'')
        (ustr ''collapsed'')),
      (Page, Markdown header_html True),
      (Page, Columns [1, 1] (ustr ''large'')),
      (Col1, Markdown (ustr ''### '' @ [0x1F4F8] @ ustr '' Upload Your Food Image'') False),
      (Col1, Markdown (ustr ''Take a photo or upload an existing image of your meal'') False),
      (Col1, FileUploader (ustr ''Supported formats: JPG, JPEG, PNG'')
        [ustr ''jpg'', ustr ''jpeg'', ustr ''png'']
        (ustr ''Make sure the image is clear and well-lit for best results''))]"

definition footer :: "(container \<times> 'img element) list" where
  "footer = [(Page, Markdown footer_html True)]"

definition meal_section :: "'img \<Rightarrow> (container \<times> 'img element) list" where
  "meal_section img =
     [(Col2, Image img (ustr ''Your Meal'') True),
      (Col2, Button ([0x1F50D] @ ustr '' Analyze Meal'')
        (ustr ''Click to get detailed calorie information'') (ustr ''primary'') True)]"

definition main :: "'img env \<Rightarrow> widgets \<Rightarrow> 'img run" where
  "main env w =
     (case uploaded_file w of
        None \<Rightarrow>
          \<lparr>page = upload_section @ [(Col2, Markdown placeholder_html True)] @ footer,
           calls = [], raised = None\<rparr>
      | Some f \<Rightarrow>
          (case image_open env f of
             Inl e \<Rightarrow> \<lparr>page = upload_section, calls = [], raised = Some e\<rparr>
           | Inr img \<Rightarrow>
               if analyze_button w then
                 (case prepare_image (uploaded_file w) of
                    None \<Rightarrow>
                      \<lparr>page = upload_section @ meal_section img
                         @ [(Col2, Spinner ([0x1F916] @ ustr '' AI is analyzing your meal...''))]
                         @ footer,
                       calls = [], raised = None\<rparr>
                  | Some image_data \<Rightarrow>
                      (case get_gemini_response (generate_content env) image_data prompt of
                         (Inl e, cs) \<Rightarrow>
                           \<lparr>page = upload_section @ meal_section img
                              @ [(Col2, Spinner ([0x1F916] @ ustr '' AI is analyzing your meal...''))],
                            calls = cs, raised = Some e\<rparr>
                       | (Inr response, cs) \<Rightarrow>
                           \<lparr>page = upload_section @ meal_section img
                              @ [(Col2, Spinner ([0x1F916] @ ustr '' AI is analyzing your meal...'')),
                                 (Col2, Success ([0x2728] @ ustr '' Analysis Complete!'')),
                                 (Col2, Markdown
                                    (result_pre @ format_response response @ result_post) True)]
                              @ footer,
                            calls = cs, raised = None\<rparr>))
               else
                 \<lparr>page = upload_section @ meal_section img @ footer,
                  calls = [], raised = None\<rparr>))"

text \<open>
  A session is a sequence of runs of the script, each on what the widgets and the
  outside world give it at that moment. The script keeps nothing between runs.
\<close>

fun session :: "('img env \<times> widgets) list \<Rightarrow> 'img run list" where
  "session [] = []"
| "session ((env, w) # cycles) = main env w # session cycles"

text \<open>Reading a page: which element a call drew.\<close>

fun is_Image :: "'img element \<Rightarrow> bool" where
  "is_Image (Image img caption wide) = True"
| "is_Image _ = False"

fun is_Button :: "'img element \<Rightarrow> bool" where
  "is_Button (Button label help kind wide) = True"
| "is_Button _ = False"

fun is_Spinner :: "'img element \<Rightarrow> bool" where
  "is_Spinner (Spinner msg) = True"
| "is_Spinner _ = False"

fun is_Success :: "'img element \<Rightarrow> bool" where
  "is_Success (Success msg) = True"
| "is_Success _ = False"



section \<open>Example inputs\<close>

definition png_file :: UploadedFile where
  "png_file = \<lparr>name = ustr ''meal.png'', type = ustr ''image/png'',
     getvalue = [0x89, 0x50, 0x4E, 0x47]\<rparr>"

definition jpg_file :: UploadedFile where
  "jpg_file = \<lparr>name = ustr ''soup.jpg'', type = ustr ''image/jpeg'',
     getvalue = [0xFF, 0xD8, 0xFF]\<rparr>"

text \<open>A service that answers with a fixed text, and one that fails.\<close>

definition answering :: "pystr \<Rightarrow> unit env" where
  "answering t =
     \<lparr>image_open = (\<lambda>f. Inr ()), generate_content = (\<lambda>m c. Inr (Response (Inr t)))\<rparr>"

definition rate_limited :: "unit env" where
  "rate_limited =
     \<lparr>image_open = (\<lambda>f. Inr ()),
      generate_content = (\<lambda>m c. Inl (Exception (ustr ''rate limited'')))\<rparr>"

text \<open>A service whose response has no readable text.\<close>

definition blocked :: "unit env" where
  "blocked =
     \<lparr>image_open = (\<lambda>f. Inr ()),
      generate_content = (\<lambda>m c. Inr (Response (Inl (Exception (ustr ''blocked'')))))\<rparr>"

definition click :: "UploadedFile \<Rightarrow> widgets" where
  "click f = \<lparr>uploaded_file = Some f, analyze_button = True\<rparr>"

definition no_upload :: widgets where
  "no_upload = \<lparr>uploaded_file = None, analyze_button = True\<rparr>"

section \<open>Properties of the display transform\<close>

lemma ustr_newline: "ustr ''\<newline>'' = [10]"
  by (simp add: ustr_def)

lemma ustr_br: "ustr ''<br>'' = [60, 98, 114, 62]"
  by (simp add: ustr_def)

lemma str_replace_char:
  "str_replace s [c] new = concat (map (\<lambda>x. if x = c then new else [x]) s)"
  by (induction s) simp_all

lemma concat_map_concat_map:
  "concat (map f (concat (map g s))) = concat (map (\<lambda>x. concat (map f (g x))) s)"
  by (induction s) simp_all

lemma format_response_display_text: "format_response r = display_text r"
  unfolding format_response_def display_text_def ustr_newline str_replace_char
    concat_map_concat_map
  by (rule arg_cong [where f = concat], rule map_cong [OF refl])
     (simp add: display_char_def ustr_br)

lemma format_response_swapped_display_text: "format_response_swapped r = display_text r"
  unfolding format_response_swapped_def display_text_def ustr_newline str_replace_char
    concat_map_concat_map
  by (rule arg_cong [where f = concat], rule map_cong [OF refl])
     (simp add: display_char_def ustr_br)

lemma display_text_plain:
  "10 \<notin> set r \<Longrightarrow> 0x2022 \<notin> set r \<Longrightarrow> display_text r = r"
  by (induction r) (auto simp: display_text_def display_char_def)


text \<open>
  Claim C10. The two substitutions commute: replacing newlines first and bullets second
  (the order of the source) gives the same text as replacing bullets first and newlines
  second.
\<close>

theorem format_response_commute: "format_response r = format_response_swapped r"
  by (simp add: format_response_display_text format_response_swapped_display_text)

section \<open>Properties of the functions and of the page\<close>

lemma prepare_image_Some:
  "prepare_image (Some f) = Some [\<lparr>mime_type = type f, data = getvalue f\<rparr>]"
  by (simp add: prepare_image_def)

lemma get_gemini_response_calls:
  "snd (get_gemini_response gen (part # rest) p) = [(ustr ''gemini-1.5-pro'', part, p)]"
  by (simp add: get_gemini_response_def split: sum.splits)

lemma get_gemini_response_Exception:
  "gen (ustr ''gemini-1.5-pro'') (part, p) = Inl (Exception m) \<Longrightarrow>
   fst (get_gemini_response gen (part # rest) p) = Inr (ustr ''Error: '' @ m)"
  by (simp add: get_gemini_response_def except_Exception_def)

lemma get_gemini_response_text_Exception:
  "gen (ustr ''gemini-1.5-pro'') (part, p) = Inr (Response (Inl (Exception m))) \<Longrightarrow>
   fst (get_gemini_response gen (part # rest) p) = Inr (ustr ''Error: '' @ m)"
  by (simp add: get_gemini_response_def except_Exception_def)

lemma except_Exception_not_Exception: "except_Exception e \<noteq> Inl (Exception m)"
  by (cases e) (simp_all add: except_Exception_def)

lemma get_gemini_response_no_Exception:
  "fst (get_gemini_response gen img p) \<noteq> Inl (Exception m)"
  by (simp add: get_gemini_response_def except_Exception_not_Exception
      split: list.splits sum.splits)

lemma main_calls:
  "calls (main env w) =
     (case uploaded_file w of
        None \<Rightarrow> []
      | Some f \<Rightarrow>
          (case image_open env f of
             Inl e \<Rightarrow> []
           | Inr img \<Rightarrow>
               if analyze_button w
               then [(ustr ''gemini-1.5-pro'', \<lparr>mime_type = type f, data = getvalue f\<rparr>, prompt)]
               else []))"
proof (cases "uploaded_file w")
  case None
  then show ?thesis by (simp add: main_def)
next
  case (Some f)
  show ?thesis
  proof (cases "image_open env f")
    case (Inl e)
    with Some show ?thesis by (simp add: main_def)
  next
    case (Inr img)
    let ?r = "get_gemini_response (generate_content env)
                [\<lparr>mime_type = type f, data = getvalue f\<rparr>] prompt"
    have "snd ?r = [(ustr ''gemini-1.5-pro'', \<lparr>mime_type = type f, data = getvalue f\<rparr>, prompt)]"
      by (rule get_gemini_response_calls)
    with Some Inr show ?thesis
      by (cases ?r) (auto simp: main_def prepare_image_Some split: sum.splits)
  qed
qed

lemma main_analysed:
  assumes "uploaded_file w = Some f" and "image_open env f = Inr img" and "analyze_button w"
    and "fst (get_gemini_response (generate_content env)
           [\<lparr>mime_type = type f, data = getvalue f\<rparr>] prompt) = Inr t"
  shows "main env w =
     \<lparr>page = upload_section @ meal_section img
        @ [(Col2, Spinner ([0x1F916] @ ustr '' AI is analyzing your meal...'')),
           (Col2, Success ([0x2728] @ ustr '' Analysis Complete!'')),
           (Col2, Markdown (result_pre @ format_response t @ result_post) True)]
        @ footer,
      calls = [(ustr ''gemini-1.5-pro'', \<lparr>mime_type = type f, data = getvalue f\<rparr>, prompt)],
      raised = None\<rparr>"
proof -
  let ?r = "get_gemini_response (generate_content env)
              [\<lparr>mime_type = type f, data = getvalue f\<rparr>] prompt"
  have "snd ?r = [(ustr ''gemini-1.5-pro'', \<lparr>mime_type = type f, data = getvalue f\<rparr>, prompt)]"
    by (rule get_gemini_response_calls)
  with assms show ?thesis
    by (cases ?r) (simp add: main_def prepare_image_Some)
qed

lemma session_append: "session (xs @ ys) = session xs @ session ys"
  by (induction xs rule: session.induct) simp_all

lemma main_no_upload:
  "uploaded_file w = None \<Longrightarrow>
   main env w = \<lparr>page = upload_section @ [(Col2, Markdown placeholder_html True)] @ footer,
     calls = [], raised = None\<rparr>"
  by (simp add: main_def)


text \<open>
  Claim C2. Whatever the image payload and the prompt, when the external call raises an
  error with message \<open>m\<close> (an \<open>Exception\<close>, raised by the call itself or by the read of
  the response's text), \<open>get_gemini_response\<close> returns the string \<open>Error: m\<close>, and it never
  lets an \<open>Exception\<close> through. On the page, a click whose call fails so ends without an
  exception, with the whole page drawn (uploader, image, button, footer) and the error
  text in the result slot, and the runs after it in the session are run as usual.
\<close>

theorem get_gemini_response_error:
  "(gen (ustr ''gemini-1.5-pro'') (part, p) = Inl (Exception m) \<longrightarrow>
      fst (get_gemini_response gen (part # rest) p) = Inr (ustr ''Error: '' @ m)) \<and>
   (gen (ustr ''gemini-1.5-pro'') (part, p) = Inr (Response (Inl (Exception m))) \<longrightarrow>
      fst (get_gemini_response gen (part # rest) p) = Inr (ustr ''Error: '' @ m)) \<and>
   fst (get_gemini_response gen img p) \<noteq> Inl (Exception m) \<and>
   (uploaded_file w = Some f \<and> image_open env f = Inr i \<and> analyze_button w \<and>
    generate_content env (ustr ''gemini-1.5-pro'')
      (\<lparr>mime_type = type f, data = getvalue f\<rparr>, prompt) = Inl (Exception m) \<longrightarrow>
      session ((env, w) # cycles) =
        \<lparr>page = upload_section @ meal_section i
           @ [(Col2, Spinner ([0x1F916] @ ustr '' AI is analyzing your meal...'')),
              (Col2, Success ([0x2728] @ ustr '' Analysis Complete!'')),
              (Col2, Markdown
                 (result_pre @ format_response (ustr ''Error: '' @ m) @ result_post) True)]
           @ footer,
         calls = [(ustr ''gemini-1.5-pro'', \<lparr>mime_type = type f, data = getvalue f\<rparr>, prompt)],
         raised = None\<rparr> # session cycles)"
  by (simp add: get_gemini_response_Exception get_gemini_response_text_Exception
      get_gemini_response_no_Exception main_analysed)

theorem get_gemini_response_error_witness:
  "generate_content rate_limited (ustr ''gemini-1.5-pro'')
     (\<lparr>mime_type = type png_file, data = getvalue png_file\<rparr>, prompt)
     = Inl (Exception (ustr ''rate limited'')) \<and>
   fst (get_gemini_response (generate_content rate_limited)
     [\<lparr>mime_type = type png_file, data = getvalue png_file\<rparr>] prompt)
     = Inr (ustr ''Error: rate limited'') \<and>
   generate_content blocked (ustr ''gemini-1.5-pro'')
     (\<lparr>mime_type = type png_file, data = getvalue png_file\<rparr>, prompt)
     = Inr (Response (Inl (Exception (ustr ''blocked'')))) \<and>
   fst (get_gemini_response (generate_content blocked)
     [\<lparr>mime_type = type png_file, data = getvalue png_file\<rparr>] prompt)
     = Inr (ustr ''Error: blocked'') \<and>
   map raised (session [(rate_limited, click png_file), (answering (ustr ''ok''), click jpg_file)])
     = [None, None]"
proof -
  let ?part = "\<lparr>mime_type = type png_file, data = getvalue png_file\<rparr>"
  have h: "generate_content rate_limited (ustr ''gemini-1.5-pro'') (?part, prompt)
      = Inl (Exception (ustr ''rate limited''))"
    by (simp add: rate_limited_def)
  have w: "uploaded_file (click png_file) = Some png_file \<and>
      image_open rate_limited png_file = Inr () \<and> analyze_button (click png_file)"
    by (simp add: click_def rate_limited_def)
  have b: "generate_content blocked (ustr ''gemini-1.5-pro'') (?part, prompt)
      = Inr (Response (Inl (Exception (ustr ''blocked''))))"
    by (simp add: blocked_def)
  have e: "ustr ''Error: '' @ ustr ''rate limited'' = ustr ''Error: rate limited'' \<and>
      ustr ''Error: '' @ ustr ''blocked'' = ustr ''Error: blocked''"
    by (simp add: ustr_def)
  have n: "raised (main (answering (ustr ''ok'')) (click jpg_file)) = None"
    by (simp add: main_def click_def answering_def prepare_image_def get_gemini_response_def)
  from get_gemini_response_error [of "generate_content rate_limited" ?part prompt
      "ustr ''rate limited''" "[]" "[]" "click png_file" png_file rate_limited "()"
      "[(answering (ustr ''ok''), click jpg_file)]"]
    get_gemini_response_error [of "generate_content blocked" ?part prompt
      "ustr ''blocked''" "[]" "[]" "click png_file" png_file blocked "()" "[]"]
    h b w e n
  show ?thesis by simp
qed

text \<open>
  Claim C3. With no file selected \<open>prepare_image\<close> returns \<open>None\<close>, and a run of the page
  with no file makes no call to the external service, whether or not the button is
  reported as clicked.
\<close>

theorem prepare_image_absent:
  "prepare_image None = None \<and>
   calls (main env (w\<lparr>uploaded_file := None\<rparr>)) = []"
  by (simp add: prepare_image_def main_calls)

text \<open>
  Claim C4. For a file that is present, \<open>prepare_image\<close> returns exactly one attachment,
  holding the file's raw bytes and its declared media type. \<open>get_gemini_response\<close> hands
  the external service the first attachment and the instruction text as they are, under
  the model name \<open>gemini-1.5-pro\<close>: what it returns is what the service answers to
  exactly that request (its text, or the error string of its \<open>Exception\<close>), and that
  request is the one call it makes. A run of the page calls the service at most once:
  on a click, when the image opens, the run is the one determined by the service's answer
  to the request made of this file's attachment and the fixed \<open>prompt\<close>; otherwise no
  call is made.
\<close>

theorem one_request_per_click:
  "prepare_image (Some f) = Some [\<lparr>mime_type = type f, data = getvalue f\<rparr>] \<and>
   get_gemini_response gen (part # rest) p =
     (case gen (ustr ''gemini-1.5-pro'') (part, p) of
        Inl e \<Rightarrow> except_Exception e
      | Inr r \<Rightarrow> (case response_text r of Inl e \<Rightarrow> except_Exception e | Inr t \<Rightarrow> Inr t),
      [(ustr ''gemini-1.5-pro'', part, p)]) \<and>
   calls (main env (w\<lparr>uploaded_file := Some f\<rparr>)) =
     (case image_open env f of
        Inl e \<Rightarrow> []
      | Inr i \<Rightarrow>
          if analyze_button w
          then [(ustr ''gemini-1.5-pro'', \<lparr>mime_type = type f, data = getvalue f\<rparr>, prompt)]
          else []) \<and>
   length (calls (main env w)) \<le> 1 \<and>
   main env \<lparr>uploaded_file = Some f, analyze_button = True\<rparr> =
     (case image_open env f of
        Inl e \<Rightarrow> \<lparr>page = upload_section, calls = [], raised = Some e\<rparr>
      | Inr i \<Rightarrow>
          (case (case generate_content env (ustr ''gemini-1.5-pro'')
                        (\<lparr>mime_type = type f, data = getvalue f\<rparr>, prompt) of
                   Inl e \<Rightarrow> except_Exception e
                 | Inr r \<Rightarrow>
                     (case response_text r of Inl e \<Rightarrow> except_Exception e | Inr t \<Rightarrow> Inr t)) of
             Inl e \<Rightarrow>
               \<lparr>page = upload_section @ meal_section i
                  @ [(Col2, Spinner ([0x1F916] @ ustr '' AI is analyzing your meal...''))],
                calls = [(ustr ''gemini-1.5-pro'',
                          \<lparr>mime_type = type f, data = getvalue f\<rparr>, prompt)],
                raised = Some e\<rparr>
           | Inr t \<Rightarrow>
               \<lparr>page = upload_section @ meal_section i
                  @ [(Col2, Spinner ([0x1F916] @ ustr '' AI is analyzing your meal...'')),
                     (Col2, Success ([0x2728] @ ustr '' Analysis Complete!'')),
                     (Col2, Markdown (result_pre @ format_response t @ result_post) True)]
                  @ footer,
                calls = [(ustr ''gemini-1.5-pro'',
                          \<lparr>mime_type = type f, data = getvalue f\<rparr>, prompt)],
                raised = None\<rparr>))"
proof -
  have wrapper: "get_gemini_response g (q # qs) x =
     (case g (ustr ''gemini-1.5-pro'') (q, x) of
        Inl e \<Rightarrow> except_Exception e
      | Inr r \<Rightarrow> (case response_text r of Inl e \<Rightarrow> except_Exception e | Inr t \<Rightarrow> Inr t),
      [(ustr ''gemini-1.5-pro'', q, x)])" for g q qs x
    by (simp add: get_gemini_response_def split: sum.splits)
  show ?thesis
    by (simp add: prepare_image_Some wrapper main_calls main_def
        split: option.splits sum.splits)
qed

text \<open>
  Claim C5. The request of a click is a function of the file uploaded in that run only:
  after any history of runs, a click on file \<open>f\<close> sends (when the image opens) the one
  request holding the bytes and media type of \<open>f\<close> and the fixed prompt, and the calls of
  the earlier runs are what they were. In particular two clicks in a row on files \<open>f1\<close>
  and \<open>f2\<close> send the request of \<open>f1\<close> and then the request of \<open>f2\<close>.
\<close>

theorem requests_independent_of_history:
  "map calls (session (history @ [(env, \<lparr>uploaded_file = Some f, analyze_button = True\<rparr>)])) =
     map calls (session history) @
     [case image_open env f of
        Inl e \<Rightarrow> []
      | Inr i \<Rightarrow> [(ustr ''gemini-1.5-pro'', \<lparr>mime_type = type f, data = getvalue f\<rparr>, prompt)]] \<and>
   map calls (session [(env1, \<lparr>uploaded_file = Some f1, analyze_button = True\<rparr>),
                       (env2, \<lparr>uploaded_file = Some f2, analyze_button = True\<rparr>)]) =
     [case image_open env1 f1 of
        Inl e \<Rightarrow> []
      | Inr i \<Rightarrow> [(ustr ''gemini-1.5-pro'', \<lparr>mime_type = type f1, data = getvalue f1\<rparr>, prompt)],
      case image_open env2 f2 of
        Inl e \<Rightarrow> []
      | Inr i \<Rightarrow> [(ustr ''gemini-1.5-pro'', \<lparr>mime_type = type f2, data = getvalue f2\<rparr>, prompt)]]"
  by (simp add: session_append main_calls split: sum.splits)


text \<open>
  Claim C7. In every run, the analyze button is on the page only if a file is uploaded.
  With no file, the right column holds the placeholder and nothing else: the page has no
  image, no button, no busy indicator and no success banner, no call is made and the run
  ends normally.
\<close>

theorem action_control_only_with_image:
  "(list_ex (is_Button \<circ> snd) (page (main env w)) \<longrightarrow> uploaded_file w \<noteq> None) \<and>
   (uploaded_file w = None \<longrightarrow>
      filter (\<lambda>ce. fst ce = Col2) (page (main env w)) = [(Col2, Markdown placeholder_html True)] \<and>
      \<not> list_ex (is_Image \<circ> snd) (page (main env w)) \<and>
      \<not> list_ex (is_Button \<circ> snd) (page (main env w)) \<and>
      \<not> list_ex (is_Spinner \<circ> snd) (page (main env w)) \<and>
      \<not> list_ex (is_Success \<circ> snd) (page (main env w)) \<and>
      calls (main env w) = [] \<and> raised (main env w) = None)"
  by (cases "uploaded_file w") (simp_all add: main_no_upload upload_section_def footer_def)

theorem action_control_only_with_image_witness:
  "list_ex (is_Button \<circ> snd) (page (main (answering (ustr ''ok'')) (click png_file))) \<and>
   uploaded_file (click png_file) \<noteq> None \<and>
   uploaded_file no_upload = None \<and>
   filter (\<lambda>ce. fst ce = Col2) (page (main rate_limited no_upload))
     = [(Col2, Markdown placeholder_html True)] \<and>
   \<not> list_ex (is_Button \<circ> snd) (page (main rate_limited no_upload)) \<and>
   calls (main rate_limited no_upload) = []"
proof -
  have b: "list_ex (is_Button \<circ> snd) (page (main (answering (ustr ''ok'')) (click png_file)))"
    by (simp add: main_def click_def answering_def prepare_image_def get_gemini_response_def
        meal_section_def)
  have n: "uploaded_file no_upload = None"
    by (simp add: no_upload_def)
  from action_control_only_with_image [of "answering (ustr ''ok'')" "click png_file"]
    action_control_only_with_image [of rate_limited no_upload] b n
  show ?thesis by simp
qed

text \<open>
  Claim C8. The service's text is embedded without escaping: a character other than the
  newline and the bullet passes through \<open>format_response\<close> unchanged, wherever it stands
  (so a text with neither newline nor bullet is embedded as it is, \<open><\<close>, \<open>>\<close> and \<open>&\<close>
  included), and the result is put on the page between the two halves of the template
  in a markdown call with \<open>unsafe_allow_html=True\<close>.
\<close>

theorem result_markup_unescaped:
  "(c \<noteq> 10 \<and> c \<noteq> 0x2022 \<longrightarrow>
      format_response (xs @ [c] @ ys) = format_response xs @ [c] @ format_response ys) \<and>
   (10 \<notin> set r \<and> 0x2022 \<notin> set r \<longrightarrow> format_response r = r) \<and>
   (uploaded_file w = Some f \<and> image_open env f = Inr i \<and> analyze_button w \<and>
    generate_content env (ustr ''gemini-1.5-pro'')
      (\<lparr>mime_type = type f, data = getvalue f\<rparr>, prompt) = Inr (Response (Inr r)) \<longrightarrow>
      (Col2, Markdown (result_pre @ format_response r @ result_post) True)
        \<in> set (page (main env w)))"
proof -
  have "format_response (xs @ [c] @ ys) = format_response xs @ [c] @ format_response ys"
    if "c \<noteq> 10" "c \<noteq> 0x2022"
    using that by (simp add: format_response_display_text display_text_def display_char_def)
  moreover have "format_response r = r" if "10 \<notin> set r" "0x2022 \<notin> set r"
    using that by (simp add: format_response_display_text display_text_plain)
  moreover have "(Col2, Markdown (result_pre @ format_response r @ result_post) True)
      \<in> set (page (main env w))"
    if "uploaded_file w = Some f" "image_open env f = Inr i" "analyze_button w"
      "generate_content env (ustr ''gemini-1.5-pro'')
        (\<lparr>mime_type = type f, data = getvalue f\<rparr>, prompt) = Inr (Response (Inr r))"
  proof -
    have "fst (get_gemini_response (generate_content env)
        [\<lparr>mime_type = type f, data = getvalue f\<rparr>] prompt) = Inr r"
      using that(4) by (simp add: get_gemini_response_def)
    from main_analysed [OF that(1-3) this] show ?thesis by simp
  qed
  ultimately show ?thesis by blast
qed

theorem result_markup_unescaped_witness:
  "(60::nat) \<noteq> 10 \<and> (60::nat) \<noteq> 0x2022 \<and>
   format_response (ustr ''a'' @ [60] @ ustr ''b>'') = ustr ''a<b>'' \<and>
   10 \<notin> set (ustr ''<b>&amp;</b>'') \<and> 0x2022 \<notin> set (ustr ''<b>&amp;</b>'') \<and>
   format_response (ustr ''<b>&amp;</b>'') = ustr ''<b>&amp;</b>'' \<and>
   (Col2, Markdown (result_pre @ ustr ''<b>&amp;</b>'' @ result_post) True)
     \<in> set (page (main (answering (ustr ''<b>&amp;</b>'')) (click png_file)))"
proof -
  let ?r = "ustr ''<b>&amp;</b>''"
  have p: "10 \<notin> set ?r \<and> 0x2022 \<notin> set ?r"
    by (simp add: ustr_def)
  have a: "format_response (ustr ''a'') = ustr ''a'' \<and> format_response (ustr ''b>'') = ustr ''b>''"
    by (simp add: format_response_display_text display_text_def display_char_def ustr_def)
  have j: "ustr ''a'' @ [60] @ ustr ''b>'' = ustr ''a<b>''"
    by (simp add: ustr_def)
  have h: "uploaded_file (click png_file) = Some png_file \<and>
      image_open (answering ?r) png_file = Inr () \<and> analyze_button (click png_file) \<and>
      generate_content (answering ?r) (ustr ''gemini-1.5-pro'')
        (\<lparr>mime_type = type png_file, data = getvalue png_file\<rparr>, prompt)
        = Inr (Response (Inr ?r))"
    by (simp add: click_def answering_def)
  note t = result_markup_unescaped [of 60 "ustr ''a''" "ustr ''b>''" ?r "click png_file" png_file
      "answering ?r" "()"]
  from t a j have c: "format_response (ustr ''a'' @ [60] @ ustr ''b>'') = ustr ''a<b>''"
    by simp
  from t p have r: "format_response ?r = ?r"
    by blast
  from t h have "(Col2, Markdown (result_pre @ format_response ?r @ result_post) True)
      \<in> set (page (main (answering ?r) (click png_file)))"
    by blast
  then have m: "(Col2, Markdown (result_pre @ ?r @ result_post) True)
      \<in> set (page (main (answering ?r) (click png_file)))"
    by (simp only: r)
  from p c r m show ?thesis by simp
qed

text \<open>
  Claim C9. Whenever \<open>get_gemini_response\<close> returns on a click with an image present, the
  success banner is drawn, and right after it the returned text; this is so when the
  text is the error string \<open>Error: m\<close> of a failed external call as well.
\<close>

theorem success_banner_unconditional:
  "(uploaded_file w = Some f \<and> image_open env f = Inr i \<and> analyze_button w \<and>
    fst (get_gemini_response (generate_content env)
      [\<lparr>mime_type = type f, data = getvalue f\<rparr>] prompt) = Inr t \<longrightarrow>
      page (main env w) = upload_section @ meal_section i
        @ [(Col2, Spinner ([0x1F916] @ ustr '' AI is analyzing your meal...'')),
           (Col2, Success ([0x2728] @ ustr '' Analysis Complete!'')),
           (Col2, Markdown (result_pre @ format_response t @ result_post) True)]
        @ footer) \<and>
   (uploaded_file w = Some f \<and> image_open env f = Inr i \<and> analyze_button w \<and>
    generate_content env (ustr ''gemini-1.5-pro'')
      (\<lparr>mime_type = type f, data = getvalue f\<rparr>, prompt) = Inl (Exception m) \<longrightarrow>
      page (main env w) = upload_section @ meal_section i
        @ [(Col2, Spinner ([0x1F916] @ ustr '' AI is analyzing your meal...'')),
           (Col2, Success ([0x2728] @ ustr '' Analysis Complete!'')),
           (Col2, Markdown
              (result_pre @ format_response (ustr ''Error: '' @ m) @ result_post) True)]
        @ footer)"
  by (simp add: main_analysed get_gemini_response_Exception)

theorem success_banner_unconditional_witness:
  "fst (get_gemini_response (generate_content (answering (ustr ''ok'')))
      [\<lparr>mime_type = type jpg_file, data = getvalue jpg_file\<rparr>] prompt) = Inr (ustr ''ok'') \<and>
   page (main (answering (ustr ''ok'')) (click jpg_file)) = upload_section @ meal_section ()
     @ [(Col2, Spinner ([0x1F916] @ ustr '' AI is analyzing your meal...'')),
        (Col2, Success ([0x2728] @ ustr '' Analysis Complete!'')),
        (Col2, Markdown (result_pre @ ustr ''ok'' @ result_post) True)]
     @ footer \<and>
   generate_content rate_limited (ustr ''gemini-1.5-pro'')
     (\<lparr>mime_type = type jpg_file, data = getvalue jpg_file\<rparr>, prompt)
     = Inl (Exception (ustr ''rate limited'')) \<and>
   page (main rate_limited (click jpg_file)) = upload_section @ meal_section ()
     @ [(Col2, Spinner ([0x1F916] @ ustr '' AI is analyzing your meal...'')),
        (Col2, Success ([0x2728] @ ustr '' Analysis Complete!'')),
        (Col2, Markdown (result_pre @ ustr ''Error: rate limited'' @ result_post) True)]
     @ footer"
proof -
  let ?part = "\<lparr>mime_type = type jpg_file, data = getvalue jpg_file\<rparr>"
  have g: "fst (get_gemini_response (generate_content (answering (ustr ''ok''))) [?part] prompt)
      = Inr (ustr ''ok'')"
    by (simp add: get_gemini_response_def answering_def)
  have h: "generate_content rate_limited (ustr ''gemini-1.5-pro'') (?part, prompt)
      = Inl (Exception (ustr ''rate limited''))"
    by (simp add: rate_limited_def)
  have w: "uploaded_file (click jpg_file) = Some jpg_file \<and> analyze_button (click jpg_file) \<and>
      image_open (answering (ustr ''ok'')) jpg_file = Inr () \<and>
      image_open rate_limited jpg_file = Inr ()"
    by (simp add: click_def answering_def rate_limited_def)
  have f: "format_response (ustr ''ok'') = ustr ''ok'' \<and>
      format_response (ustr ''Error: '' @ ustr ''rate limited'') = ustr ''Error: rate limited''"
    by (simp add: format_response_display_text display_text_def display_char_def ustr_def)
  from success_banner_unconditional [of "click jpg_file" jpg_file "answering (ustr ''ok'')" "()"
      "ustr ''ok''" "ustr ''rate limited''"]
    success_banner_unconditional [of "click jpg_file" jpg_file rate_limited "()"
      "ustr ''Error: rate limited''" "ustr ''rate limited''"] g h w f
  show ?thesis by simp
qed

end
